theory Spec2Isabelle
  imports Complex_Main "HOL-Library.Sublist" "HOL-Library.Multiset" "HOL-Library.Log_Nat"
begin

section \<open>Job Hunter agent: relevance scoring, selection and discovery de-duplication\<close>

text \<open>
  The development embeds \<^verbatim>\<open>nodes/relevance_scoring.py\<close>, the constants of
  \<^verbatim>\<open>config/settings.py\<close> it reads, the \<^verbatim>\<open>JobListing\<close> model of
  \<^verbatim>\<open>config/state.py\<close> and the de-duplication loop of
  \<^verbatim>\<open>nodes/job_discovery.py\<close>.

  Conventions of the embedding:
  \<^item> Python \<^verbatim>\<open>str\<close> is \<^typ>\<open>string\<close>; the text handled is taken to be ASCII, so
    \<^verbatim>\<open>str.lower\<close> maps \<^verbatim>\<open>A\<close>..\<^verbatim>\<open>Z\<close> to \<^verbatim>\<open>a\<close>..\<^verbatim>\<open>z\<close> and leaves every
    other character alone.
  \<^item> \<^verbatim>\<open>kw in text\<close> on strings is the contiguous-substring test \<^const>\<open>sublist\<close>.
  \<^item> A Python \<^verbatim>\<open>float\<close> is the \<^typ>\<open>real\<close> number it denotes. The four keyword
    components and the semantic bonus are given by their decimal values
    (\<^verbatim>\<open>round(x, n)\<close> rounds the exact value to \<open>n\<close> decimals, ties to even); the scoring
    loop, which adds, multiplies and rounds them, works on their nearest binary64
    numbers, with every operation rounded to nearest, ties to even.
  \<^item> An exception is a value \<open>Inl e\<close> of a sum type; \<^verbatim>\<open>try/except Exception\<close> is a
    case distinction on it.
\<close>

subsection \<open>Strings and numbers of the host language\<close>

definition lower_char :: "char \<Rightarrow> char" where
  "lower_char c =
     (case map_of (zip ''ABCDEFGHIJKLMNOPQRSTUVWXYZ'' ''abcdefghijklmnopqrstuvwxyz'') c of
        Some l \<Rightarrow> l
      | None \<Rightarrow> c)"

definition lower :: "string \<Rightarrow> string" where
  "lower s = map lower_char s"

text \<open>\<^verbatim>\<open>sep.join(xs)\<close>.\<close>

fun join :: "string \<Rightarrow> string list \<Rightarrow> string" where
  "join sep [] = []"
| "join sep [x] = x"
| "join sep (x # y # ys) = x @ sep @ join sep (y # ys)"

text \<open>Rounding of a real to the nearest integer, ties to the even neighbour.\<close>

definition round_half_even :: "real \<Rightarrow> int" where
  "round_half_even x =
     (let f = \<lfloor>x\<rfloor>; d = x - of_int f
      in if d < 1 / 2 then f
         else if 1 / 2 < d then f + 1
         else if even f then f else f + 1)"

text \<open>\<^verbatim>\<open>round(x, n)\<close> for a non-negative number of digits \<open>n\<close>.\<close>

definition py_round :: "real \<Rightarrow> nat \<Rightarrow> real" where
  "py_round x n = of_int (round_half_even (x * 10 ^ n)) / 10 ^ n"

text \<open>
  Binary64 arithmetic. \<open>pow2 k\<close> is the power of two with exponent \<open>k\<close>;
  \<open>binary_exponent x\<close> is the exponent \<open>e\<close> with \<open>2^e \<le> x < 2^(e+1)\<close> of a positive \<open>x\<close>;
  \<open>to_double x\<close> is the multiple of the unit in the last place nearest to \<open>x\<close>, ties to
  the even multiple: 53 significant bits, and steps of \<open>2^-1074\<close> below \<open>2^-1022\<close>.
  Overflow to infinity is not modelled: the scoring arithmetic stays far below the
  largest double.
\<close>

definition pow2 :: "int \<Rightarrow> real" where
  "pow2 k = (if 0 \<le> k then 2 ^ nat k else 1 / 2 ^ nat (- k))"

definition binary_exponent :: "real \<Rightarrow> int" where
  "binary_exponent x =
     (if 1 \<le> x then bitlen \<lfloor>x\<rfloor> - 1 else - bitlen (\<lceil>1 / x\<rceil> - 1))"

definition to_double :: "real \<Rightarrow> real" where
  "to_double x =
     (if x = 0 then 0
      else let q = max (binary_exponent \<bar>x\<bar> - 52) (- 1074)
           in of_int (round_half_even (x / pow2 q)) * pow2 q)"

text \<open>\<^verbatim>\<open>a + b\<close> and \<^verbatim>\<open>a * b\<close> on floats, and \<^verbatim>\<open>round(x, n)\<close> of a float \<open>x\<close>.\<close>

definition float_add :: "real \<Rightarrow> real \<Rightarrow> real" where
  "float_add a b = to_double (a + b)"

definition float_mul :: "real \<Rightarrow> real \<Rightarrow> real" where
  "float_mul a b = to_double (a * b)"

definition float_round :: "real \<Rightarrow> nat \<Rightarrow> real" where
  "float_round x n = to_double (py_round x n)"

datatype py_exception = Exception string

subsection \<open>\<^verbatim>\<open>config/state.py\<close>: job listings\<close>

text \<open>
  The dictionaries built by the scrapers carry exactly the keys of \<^verbatim>\<open>JobListing\<close> except
  \<^verbatim>\<open>relevance_score\<close>; \<^verbatim>\<open>JobListing(**job)\<close> adds that field with its default.
\<close>

record raw_job =
  job_id :: string
  title :: string
  company :: string
  location :: string
  work_mode :: string
  job_url :: string
  description :: string
  required_skills :: "string list"
  preferred_skills :: "string list"
  posted_date :: "string option"
  experience_required :: string
  salary_range :: "string option"
  source :: string
  joining_date_flexible :: bool

record JobListing = raw_job +
  relevance_score :: real

subsection \<open>\<^verbatim>\<open>config/settings.py\<close>\<close>

definition CANDIDATE_SKILLS :: "(string \<times> string list) list" where
  "CANDIDATE_SKILLS =
    [(''languages'', [''Python'', ''C++'', ''Java'', ''JavaScript'', ''HTML/CSS'']),
     (''frameworks'', [''Flask'', ''Node.js'', ''React'', ''Streamlit'', ''PyTorch'']),
     (''ml_frameworks'', [''PyTorch'', ''Hugging Face'', ''scikit-learn'', ''BERT'', ''LLaMA'']),
     (''genai'',
        [''LangChain'', ''LangGraph'', ''RAG'', ''Text Embeddings'',
         ''Prompt Engineering'', ''LoRA'', ''QLoRA'', ''LLMs'',
         ''Fine-tuning'', ''FAISS'', ''Chroma'', ''Vector Databases'',
         ''OpenAI API'', ''GPT-4o'', ''GPT-4o-mini'']),
     (''agentic'',
        [''LangGraph'', ''LangChain'', ''Multi-Agent Systems'',
         ''Autonomous Agents'', ''Tool Calling'', ''Multi-step Reasoning'',
         ''Agent Orchestration'', ''State Machines'', ''6-node Pipeline'']),
     (''mlops'',
        [''DVC'', ''Dagster'', ''Astronomer'', ''Apache Airflow'',
         ''AWS'', ''S3'', ''EC2'', ''SageMaker'', ''Docker'',
         ''MLflow'', ''CI/CD Pipelines'', ''Model Versioning'', ''Data Pipelines'']),
     (''scraping'',
        [''BeautifulSoup'', ''Requests'', ''Selenium'',
         ''LinkedIn Scraping'', ''Indeed Scraping'', ''Web Scraping'']),
     (''apis'',
        [''Telegram Bot API'', ''Google Sheets API'', ''Notion API'',
         ''OpenAI API'', ''REST APIs'']),
     (''databases'', [''MySQL'', ''PostgreSQL'', ''MongoDB'']),
     (''data'', [''Pandas'', ''NumPy'', ''Matplotlib'', ''Seaborn'']),
     (''tools'',
        [''Git'', ''GitHub'', ''Linux'', ''LeetCode'',
         ''Groq Cloud'', ''Gradio'', ''Whisper'', ''gTTS'',
         ''Sentence Transformers''])]"

definition ALL_SKILLS :: "string list" where
  "ALL_SKILLS = concat (map snd CANDIDATE_SKILLS)"

definition MIN_RELEVANCE_SCORE :: real where
  "MIN_RELEVANCE_SCORE = 60"

definition PREFERRED_COMPANY_KEYWORDS :: "string list" where
  "PREFERRED_COMPANY_KEYWORDS =
    [''AI'', ''ML'', ''GenAI'', ''LLM'', ''Generative'', ''Agentic'',
     ''NLP'', ''Computer Vision'', ''Deep Learning'', ''SaaS'', ''startup'']"

definition BLACKLIST_KEYWORDS :: "string list" where
  "BLACKLIST_KEYWORDS =
    [''senior'', ''lead'', ''principal'', ''staff'', ''director'',
     ''5+ years'', ''7+ years'', ''10+ years'', ''3+ years'',
     ''2+ years mandatory'']"

subsection \<open>\<^verbatim>\<open>nodes/relevance_scoring.py\<close>: scoring components\<close>

definition skill_overlap_score :: "JobListing \<Rightarrow> real" where
  "skill_overlap_score job =
     (if required_skills job = [] then 20
      else
        let candidate_lower = map lower ALL_SKILLS;
            matched = length (filter (\<lambda>skill. lower skill \<in> set candidate_lower)
                                (required_skills job));
            overlap = real matched / real (length (required_skills job))
        in py_round (overlap * 40) 2)"

definition experience_match_score :: "JobListing \<Rightarrow> real" where
  "experience_match_score job =
     (let exp_text = lower (experience_required job);
          description_lower = lower (description job);
          combined = exp_text @ '' '' @ description_lower
      in if list_ex (\<lambda>kw. sublist kw combined)
              [''intern'', ''fresher'', ''0-1'', ''entry'', ''graduate'', ''trainee'']
         then 25
         else if list_ex (\<lambda>kw. sublist kw combined) [''1-2 year'', ''1+ year'', ''junior'']
         then 18
         else if list_ex (\<lambda>kw. sublist kw combined) [''2+ year'', ''2-3 year'']
         then 8
         else if list_ex (\<lambda>kw. sublist kw combined) [''3+'', ''4+'', ''5+'', ''senior'', ''lead'']
         then 0
         else 15)"

definition priority_tech :: "string list" where
  "priority_tech =
    [''langchain'', ''langgraph'', ''llm'', ''rag'', ''pytorch'', ''transformers'',
     ''huggingface'', ''openai'', ''generative'', ''agent'', ''vector'', ''fine-tun'',
     ''mistral'', ''llama'', ''gpt'', ''embedding'', ''langsmith'']"

definition tech_stack_score :: "JobListing \<Rightarrow> real" where
  "tech_stack_score job =
     (let desc_lower = lower (description job);
          skill_lower = map lower (required_skills job @ preferred_skills job);
          all_text = desc_lower @ join '' '' skill_lower;
          matches = length (filter (\<lambda>tech. sublist tech all_text) priority_tech);
          score = min (matches * 3) 25
      in real score)"

definition company_preference_score :: "JobListing \<Rightarrow> real" where
  "company_preference_score job =
     (let company_lower = lower (company job);
          desc_lower = lower (description job);
          combined = company_lower @ '' '' @ desc_lower;
          matches = length (filter (\<lambda>kw. sublist (lower kw) combined)
                              PREFERRED_COMPANY_KEYWORDS)
      in real (min (matches * 2) 10))"

definition eligibility_score :: "JobListing \<Rightarrow> real" where
  "eligibility_score job =
     (let score = 0;
          score = (if work_mode job \<in> set [''Remote'', ''Hybrid''] then score + 5 else score);
          score = (if joining_date_flexible job then score + 5 else score)
      in score)"

definition is_disqualified :: "JobListing \<Rightarrow> bool" where
  "is_disqualified job =
     (let combined = lower (title job @ '' '' @ description job @ '' '' @
                            experience_required job)
      in list_ex (\<lambda>kw. sublist (lower kw) combined) BLACKLIST_KEYWORDS)"

subsection \<open>Semantic scoring\<close>

text \<open>
  The embedding collaborator is the object returned by \<^verbatim>\<open>get_embeddings()\<close>; the only
  method used is \<^verbatim>\<open>embed_query\<close>, which returns a vector or raises.
\<close>

datatype embeddings_model =
  Embeddings (embed_query: "string \<Rightarrow> py_exception + real list")

text \<open>
  \<^verbatim>\<open>sklearn.metrics.pairwise.cosine_similarity([a], [b])[0][0]\<close>: both rows are
  scaled to unit length (a zero row is left as it is) and multiplied; rows of different
  or zero length are rejected.
\<close>

definition row_norm :: "real list \<Rightarrow> real" where
  "row_norm v = sqrt (sum_list (map (\<lambda>x. x * x) v))"

definition normalize :: "real list \<Rightarrow> real list" where
  "normalize v = (let n = row_norm v; n = (if n = 0 then 1 else n) in map (\<lambda>x. x / n) v)"

definition cosine_similarity :: "real list \<Rightarrow> real list \<Rightarrow> py_exception + real" where
  "cosine_similarity a b =
     (if a = [] \<or> b = [] \<or> length a \<noteq> length b then Inl (Exception ''ValueError'')
      else Inr (sum_list (map2 (*) (normalize a) (normalize b))))"

definition candidate_profile :: string where
  "candidate_profile =
     ''Machine learning engineer with expertise in: '' @ join '', '' (take 30 ALL_SKILLS)"

definition job_text :: "JobListing \<Rightarrow> string" where
  "job_text job = (if description job \<noteq> [] then take 500 (description job) else title job)"

definition semantic_similarity :: "JobListing \<Rightarrow> embeddings_model \<Rightarrow> real" where
  "semantic_similarity job embeddings_model =
     (case embed_query embeddings_model candidate_profile of
        Inl e \<Rightarrow> 5
      | Inr emb_candidate \<Rightarrow>
          (case embed_query embeddings_model (job_text job) of
             Inl e \<Rightarrow> 5
           | Inr emb_job \<Rightarrow>
               (case cosine_similarity emb_candidate emb_job of
                  Inl e \<Rightarrow> 5
                | Inr sim \<Rightarrow> py_round (sim * 10) 2)))"

subsection \<open>The scoring node\<close>

text \<open>
  The body of the loop for a posting that is not disqualified. The components and the
  bonus enter as binary64 numbers, \<^verbatim>\<open>0.1\<close> is the double nearest to one tenth, and the
  three additions, the multiplication and the final \<^verbatim>\<open>round(final_score, 1)\<close> are the
  float operations.
\<close>

definition score_job :: "embeddings_model option \<Rightarrow> JobListing \<Rightarrow> JobListing" where
  "score_job embeddings_model job =
     (let s1 = to_double (skill_overlap_score job);
          s2 = to_double (experience_match_score job);
          s3 = to_double (tech_stack_score job);
          s4 = to_double (company_preference_score job);
          base_score = float_add (float_add (float_add s1 s2) s3) s4;
          semantic_bonus = (case embeddings_model of
                              None \<Rightarrow> 0
                            | Some m \<Rightarrow> to_double (semantic_similarity job m));
          final_score = min (float_add base_score (float_mul semantic_bonus (to_double (1 / 10)))) 100
      in job\<lparr>relevance_score := float_round final_score 1\<rparr>)"

fun score_loop :: "embeddings_model option \<Rightarrow> JobListing list \<Rightarrow> JobListing list" where
  "score_loop embeddings_model [] = []"
| "score_loop embeddings_model (job # jobs) =
     (if is_disqualified job then score_loop embeddings_model jobs
      else score_job embeddings_model job # score_loop embeddings_model jobs)"

text \<open>
  \<^verbatim>\<open>scored_jobs.sort(key=lambda j: j.relevance_score, reverse=True)\<close>: the library sort is
  stable, and with \<^verbatim>\<open>reverse=True\<close> elements with equal keys keep their original order.
\<close>

definition sort_by_score_desc :: "JobListing list \<Rightarrow> JobListing list" where
  "sort_by_score_desc scored_jobs = sort_key (\<lambda>j. - relevance_score j) scored_jobs"

text \<open>The sort followed by the threshold filter, with the threshold as a parameter.\<close>

definition selection_gate :: "real \<Rightarrow> JobListing list \<Rightarrow> JobListing list" where
  "selection_gate threshold scored_jobs =
     filter (\<lambda>j. relevance_score j \<ge> threshold) (sort_by_score_desc scored_jobs)"

text \<open>
  The run context is a dictionary; a key that has not been written yet is \<open>None\<close>.
  Only the keys this node reads or writes are modelled.
\<close>

record AgentState =
  filtered_jobs :: "JobListing list option"
  scored_jobs :: "JobListing list option"
  selected_jobs :: "JobListing list option"

text \<open>
  The first argument is the outcome of \<^verbatim>\<open>get_embeddings()\<close>, which returns the
  collaborator or raises. The postings are scored in place, so the list stored under
  \<^verbatim>\<open>filtered_jobs\<close> sees the new scores as well.
\<close>

definition relevance_scoring_node ::
  "py_exception + embeddings_model \<Rightarrow> AgentState \<Rightarrow> AgentState" where
  "relevance_scoring_node get_embeddings state =
     (let jobs = (case filtered_jobs state of None \<Rightarrow> [] | Some js \<Rightarrow> js);
          embeddings_model = (case get_embeddings of Inl e \<Rightarrow> None | Inr m \<Rightarrow> Some m);
          scored = sort_by_score_desc (score_loop embeddings_model jobs);
          selected = filter (\<lambda>j. relevance_score j \<ge> MIN_RELEVANCE_SCORE) scored
      in state\<lparr>filtered_jobs :=
                 map_option (map (\<lambda>j. if is_disqualified j then j
                                        else score_job embeddings_model j))
                   (filtered_jobs state),
               scored_jobs := Some scored,
               selected_jobs := Some selected\<rparr>)"

subsection \<open>\<^verbatim>\<open>nodes/job_discovery.py\<close>: identifiers and de-duplication\<close>

definition SEARCH_QUERIES :: "string list" where
  "SEARCH_QUERIES =
    [''Machine Learning Intern'', ''GenAI Intern'', ''LLM Engineer fresher'',
     ''AI Agent Developer entry level'', ''Generative AI intern'',
     ''Deep Learning intern'', ''NLP engineer fresher'', ''AI Research intern'',
     ''MLOps intern'', ''LangChain developer fresher'']"

definition SCRAPE_SOURCES :: "(string \<times> bool) list" where
  "SCRAPE_SOURCES =
    [(''linkedin'', True), (''indeed'', True), (''internshala'', True),
     (''wellfound'', True), (''unstop'', True), (''company_pages'', True)]"


text \<open>
  The four scrapers query the network: what a call returns depends on the query and on
  the state \<open>'w\<close> of the outside world, which the call may change.
\<close>

record 'w scrapers =
  scrape_internshala :: "string \<Rightarrow> 'w \<Rightarrow> raw_job list \<times> 'w"
  scrape_indeed :: "string \<Rightarrow> 'w \<Rightarrow> raw_job list \<times> 'w"
  scrape_wellfound :: "string \<Rightarrow> 'w \<Rightarrow> raw_job list \<times> 'w"
  scrape_linkedin :: "string \<Rightarrow> 'w \<Rightarrow> raw_job list \<times> 'w"


text \<open>\<^verbatim>\<open>SCRAPE_SOURCES.get(name)\<close> used as a condition: a missing key is falsy.\<close>

definition source_enabled :: "string \<Rightarrow> bool" where
  "source_enabled name = (case map_of SCRAPE_SOURCES name of Some b \<Rightarrow> b | None \<Rightarrow> False)"




subsection \<open>Notions used to state the properties\<close>

text \<open>Case-insensitive substring: \<open>kw\<close> occurs in \<open>text\<close> once both are lower-cased.\<close>

definition ci_substring :: "string \<Rightarrow> string \<Rightarrow> bool" where
  "ci_substring kw text = sublist (lower kw) (lower text)"

text \<open>
  The fraction of the required skills that equal, up to case, some skill of the
  candidate's flat skill list.
\<close>

definition matched_fraction :: "JobListing \<Rightarrow> real" where
  "matched_fraction job =
     real (length (filter (\<lambda>skill. list_ex (\<lambda>s. lower s = lower skill) ALL_SKILLS)
                     (required_skills job)))
     / real (length (required_skills job))"

text \<open>The priority terms, respectively preferred-company keywords, found in a text.\<close>

definition tech_hits :: "string \<Rightarrow> string list" where
  "tech_hits text = filter (\<lambda>tech. ci_substring tech text) priority_tech"

definition company_hits :: "string \<Rightarrow> string list" where
  "company_hits text = filter (\<lambda>kw. ci_substring kw text) PREFERRED_COMPANY_KEYWORDS"

text \<open>Two postings that agree on every field except work mode and start-date flexibility.\<close>

definition same_except_eligibility :: "JobListing \<Rightarrow> JobListing \<Rightarrow> bool" where
  "same_except_eligibility a b =
     (b = a\<lparr>work_mode := work_mode b, joining_date_flexible := joining_date_flexible b\<rparr>)"

text \<open>
  All postings the scrapers return during a run, in the order in which the discovery
  loop meets them.
\<close>

definition scrape_one ::
  "string \<Rightarrow> (string \<Rightarrow> 'w \<Rightarrow> raw_job list \<times> 'w) \<Rightarrow> string \<Rightarrow>
   raw_job list \<times> 'w \<Rightarrow> raw_job list \<times> 'w" where
  "scrape_one name scrape query st =
     (if source_enabled name
      then (case scrape query (snd st) of (jobs, w) \<Rightarrow> (fst st @ jobs, w))
      else st)"

fun discovered_stream ::
  "'w scrapers \<Rightarrow> string list \<Rightarrow> raw_job list \<times> 'w \<Rightarrow> raw_job list \<times> 'w" where
  "discovered_stream S [] st = st"
| "discovered_stream S (query # queries) st =
     discovered_stream S queries
       (scrape_one ''linkedin'' (scrape_linkedin S) query
         (scrape_one ''wellfound'' (scrape_wellfound S) query
           (scrape_one ''indeed'' (scrape_indeed S) query
             (scrape_one ''internshala'' (scrape_internshala S) query st))))"

subsection \<open>Concrete postings and collaborators\<close>

text \<open>The posting of the end-to-end scenario.\<close>

definition scenario_job :: JobListing where
  "scenario_job =
     \<lparr>job_id = ''0123456789'', title = ''Machine Learning Intern'', company = ''Acme AI'',
      location = ''Bengaluru'', work_mode = ''Onsite'', job_url = ''https://example.org/1'',
      description = ''Work with LangChain and RAG'',
      required_skills = [''Python'', ''PyTorch''], preferred_skills = [],
      posted_date = None,
      experience_required = ''Machine Learning Intern, fresher welcome'',
      salary_range = None, source = ''linkedin'', joining_date_flexible = False,
      relevance_score = 0\<rparr>"

text \<open>One required skill of three is a candidate skill.\<close>

definition three_skill_job :: JobListing where
  "three_skill_job = scenario_job\<lparr>required_skills := [''Python'', ''Rust'', ''Go'']\<rparr>"

text \<open>A posting whose four keyword components are all zero.\<close>

definition off_profile_job :: JobListing where
  "off_profile_job =
     \<lparr>job_id = ''abcdef0123'', title = ''COBOL Developer'', company = ''Ledger Bank'',
      location = ''Pune'', work_mode = ''Onsite'', job_url = ''https://example.org/2'',
      description = ''COBOL batch jobs, 4+ yrs'',
      required_skills = [''COBOL''], preferred_skills = [],
      posted_date = None, experience_required = ''4+ yrs'',
      salary_range = None, source = ''indeed'', joining_date_flexible = False,
      relevance_score = 0\<rparr>"

text \<open>A collaborator whose every call raises.\<close>

definition failing_embeddings :: embeddings_model where
  "failing_embeddings = Embeddings (\<lambda>text. Inl (Exception ''connection refused''))"

text \<open>
  A collaborator that embeds the candidate profile and every other text in opposite
  directions.
\<close>

definition opposed_embeddings :: embeddings_model where
  "opposed_embeddings =
     Embeddings (\<lambda>text. Inr (if text = candidate_profile then [1, 0] else [- 1, 0]))"

text \<open>
  The float sum of the four keyword components (\<^verbatim>\<open>base_score\<close> in the scoring loop),
  added from left to right.
\<close>

definition float_base_score :: "JobListing \<Rightarrow> real" where
  "float_base_score job =
     float_add
       (float_add
          (float_add (to_double (skill_overlap_score job))
                     (to_double (experience_match_score job)))
          (to_double (tech_stack_score job)))
       (to_double (company_preference_score job))"

text \<open>A blacklisted variant of the scenario posting.\<close>

definition senior_job :: JobListing where
  "senior_job = scenario_job\<lparr>title := ''Senior ML Engineer''\<rparr>"

text \<open>\<^verbatim>\<open>get_embeddings()\<close> raising, and a run context holding the discovered postings.\<close>

definition no_embeddings :: "py_exception + embeddings_model" where
  "no_embeddings = Inl (Exception ''ImportError'')"

definition state_of :: "JobListing list \<Rightarrow> AgentState" where
  "state_of jobs = \<lparr>filtered_jobs = Some jobs, scored_jobs = None, selected_jobs = None\<rparr>"

text \<open>The postings met during one run of the discovery loop, before de-duplication.\<close>

definition scraped_postings ::
  "'w scrapers \<Rightarrow> string list option \<Rightarrow> 'w \<Rightarrow> raw_job list" where
  "scraped_postings S search_queries w =
     fst (discovered_stream S
            (take 6 (case search_queries of None \<Rightarrow> SEARCH_QUERIES | Some qs \<Rightarrow> qs))
            ([], w))"

text \<open>Scraped postings for a small run: two sources return postings, two return nothing.\<close>

definition example_posting :: "string \<Rightarrow> string \<Rightarrow> string \<Rightarrow> raw_job" where
  "example_posting i t s =
     \<lparr>job_id = i, title = t, company = ''Acme AI'', location = ''India'',
      work_mode = ''Onsite'', job_url = ''https://example.org'', description = t,
      required_skills = [], preferred_skills = [], posted_date = None,
      experience_required = ''Fresher / Intern'', salary_range = None, source = s,
      joining_date_flexible = True\<rparr>"

definition example_scrapers :: "unit scrapers" where
  "example_scrapers =
     \<lparr>scrape_internshala = (\<lambda>q w.
          ([example_posting ''aaaaaaaaaa'' ''ML Intern'' ''internshala'',
            example_posting ''bbbbbbbbbb'' ''GenAI Intern'' ''internshala''], w)),
      scrape_indeed = (\<lambda>q w.
          ([example_posting ''bbbbbbbbbb'' ''GenAI Intern'' ''indeed'',
            example_posting ''cccccccccc'' ''NLP Intern'' ''indeed''], w)),
      scrape_wellfound = (\<lambda>q w. ([], w)),
      scrape_linkedin = (\<lambda>q w. ([], w))\<rparr>"

text \<open>The scenario posting advertised as remote with a flexible start date.\<close>

definition remote_scenario_job :: JobListing where
  "remote_scenario_job = scenario_job\<lparr>work_mode := ''Remote'', joining_date_flexible := True\<rparr>"

section \<open>Verified properties\<close>

subsection \<open>Auxiliary facts\<close>

lemma sorted_desc_sort_by_score:
  "sorted_wrt (\<lambda>a b. relevance_score a \<ge> relevance_score b) (sort_by_score_desc js)"
proof -
  have "sorted (map (\<lambda>j. - relevance_score j) (sort_by_score_desc js))"
    by (simp add: sort_by_score_desc_def)
  then show ?thesis
    by (simp add: sorted_map)
qed

lemma sort_by_score_desc_stable:
  "filter (\<lambda>j. relevance_score j = k) (sort_by_score_desc js) =
   filter (\<lambda>j. relevance_score j = k) js"
proof -
  have "filter (\<lambda>j. - relevance_score j = - k) (sort_key (\<lambda>j. - relevance_score j) js) =
        filter (\<lambda>j. - relevance_score j = - k) js"
    by (rule sort_key_stable)
  then show ?thesis
    by (simp add: sort_by_score_desc_def)
qed

lemma mset_sort_by_score_desc: "mset (sort_by_score_desc js) = mset js"
  by (simp add: sort_by_score_desc_def)


lemma lower_append: "lower (a @ b) = lower a @ lower b"
  by (simp add: lower_def)

lemma round_half_even_lower: "of_int m \<le> x \<Longrightarrow> m \<le> round_half_even x"
proof -
  assume "of_int m \<le> x"
  then have "m \<le> \<lfloor>x\<rfloor>" by (simp add: le_floor_iff)
  then show ?thesis by (simp add: round_half_even_def Let_def)
qed

lemma round_half_even_upper: "x \<le> of_int m \<Longrightarrow> round_half_even x \<le> m"
proof -
  assume h: "x \<le> of_int m"
  then have fl: "\<lfloor>x\<rfloor> \<le> m" by (simp add: floor_le_iff)
  show ?thesis
  proof (cases "\<lfloor>x\<rfloor> = m")
    case True
    then have "x - of_int \<lfloor>x\<rfloor> \<le> 0" using h by simp
    then show ?thesis using True by (simp add: round_half_even_def Let_def)
  next
    case False
    with fl have "\<lfloor>x\<rfloor> + 1 \<le> m" by simp
    then show ?thesis by (simp add: round_half_even_def Let_def)
  qed
qed

lemma py_round_lower: "of_int m \<le> x * 10 ^ n \<Longrightarrow> of_int m / 10 ^ n \<le> py_round x n"
  by (simp add: py_round_def divide_right_mono round_half_even_lower)

lemma py_round_upper: "x * 10 ^ n \<le> of_int m \<Longrightarrow> py_round x n \<le> of_int m / 10 ^ n"
  by (simp add: py_round_def divide_right_mono round_half_even_upper)

lemma py_round_mono_upper_100: "x \<le> 100 \<Longrightarrow> py_round x (Suc 0) \<le> 100"
  using py_round_upper [of x "Suc 0" 1000] by simp

lemma round_half_even_of_int [simp]: "round_half_even (of_int m) = m"
  by (simp add: round_half_even_def)

lemma pow2_powr: "pow2 k = 2 powr (of_int k)"
proof (cases "0 \<le> k")
  case True
  then have "2 powr (of_int k) = (2::real) powr (real (nat k))" by simp
  also have "\<dots> = 2 ^ nat k" by (simp add: powr_realpow)
  finally show ?thesis using True by (simp add: pow2_def)
next
  case False
  then have "2 powr (of_int k) = (2::real) powr (- real (nat (- k)))" by simp
  also have "\<dots> = 1 / 2 ^ nat (- k)" by (simp add: powr_minus powr_realpow divide_inverse)
  finally show ?thesis using False by (simp add: pow2_def)
qed

lemma pow2_pos [simp]: "0 < pow2 k"
  by (simp add: pow2_powr)

lemma pow2_add: "pow2 (a + b) = pow2 a * pow2 b"
  by (simp add: pow2_powr powr_add)

lemma pow2_le_iff: "pow2 a \<le> pow2 b \<longleftrightarrow> a \<le> b"
  by (simp add: pow2_powr)

lemma pow2_less_iff: "pow2 a < pow2 b \<longleftrightarrow> a < b"
  by (simp add: pow2_powr)

lemma pow2_nonneg_int: "0 \<le> k \<Longrightarrow> pow2 k = of_int (2 ^ nat k)"
  by (simp add: pow2_def)

lemma binary_exponent_bounds:
  assumes "0 < a"
  shows "pow2 (binary_exponent a) \<le> a \<and> a < pow2 (binary_exponent a + 1)"
proof (cases "1 \<le> a")
  case True
  define n where "n = \<lfloor>a\<rfloor>"
  have n: "0 < n" using True by (simp add: n_def)
  have b1: "1 \<le> bitlen n" using n by (simp add: bitlen_alt_def)
  from bitlen_bounds [OF n] have lo: "2 ^ nat (bitlen n - 1) \<le> n" and hi: "n < 2 ^ nat (bitlen n)"
    by blast+
  have e: "binary_exponent a = bitlen n - 1" using True by (simp add: binary_exponent_def n_def)
  have "pow2 (bitlen n - 1) = of_int (2 ^ nat (bitlen n - 1))"
    using b1 by (simp add: pow2_nonneg_int)
  also have "\<dots> \<le> of_int n" using lo by (simp only: of_int_le_iff)
  also have "\<dots> \<le> a" by (simp add: n_def)
  finally have L: "pow2 (bitlen n - 1) \<le> a" .
  have "n + 1 \<le> 2 ^ nat (bitlen n)" using hi by simp
  then have "(of_int (n + 1) :: real) \<le> of_int (2 ^ nat (bitlen n))" by (simp only: of_int_le_iff)
  moreover have "a < of_int (n + 1)" by (simp add: n_def)
  ultimately have "a < of_int (2 ^ nat (bitlen n))" by linarith
  also have "\<dots> = pow2 (bitlen n - 1 + 1)" using b1 by (simp add: pow2_nonneg_int)
  finally show ?thesis using L e by simp
next
  case False
  define y where "y = 1 / a"
  define c where "c = \<lceil>y\<rceil>"
  define k where "k = bitlen (c - 1)"
  have y1: "1 < y" using False assms by (simp add: y_def)
  have c2: "0 < c - 1"
  proof -
    have "1 < c" unfolding c_def using y1 by (simp add: less_ceiling_iff)
    then show ?thesis by simp
  qed
  have k1: "1 \<le> k" using c2 by (simp add: k_def bitlen_alt_def)
  from bitlen_bounds [OF c2] have lo: "2 ^ nat (k - 1) \<le> c - 1" and hi: "c - 1 < 2 ^ nat k"
    unfolding k_def by blast+
  have e: "binary_exponent a = - k" using False by (simp add: binary_exponent_def k_def c_def y_def)
  have "c \<le> 2 ^ nat k" using hi by simp
  then have "(of_int c :: real) \<le> of_int (2 ^ nat k)" by (simp only: of_int_le_iff)
  moreover have "y \<le> of_int c" by (simp add: c_def)
  moreover have "(of_int (2 ^ nat k) :: real) = 2 ^ nat k" by simp
  ultimately have yk: "y \<le> 2 ^ nat k" by linarith
  have "(of_int (2 ^ nat (k - 1)) :: real) \<le> of_int (c - 1)" using lo by (simp only: of_int_le_iff)
  moreover have "of_int (c - 1) < y" unfolding c_def by linarith
  moreover have "(of_int (2 ^ nat (k - 1)) :: real) = 2 ^ nat (k - 1)" by simp
  ultimately have ky: "2 ^ nat (k - 1) < y" by linarith
  have a_eq: "a = 1 / y" using assms by (simp add: y_def)
  have ypos: "0 < y" using y1 by simp
  have L: "pow2 (- k) \<le> a"
  proof -
    have "pow2 (- k) = 1 / 2 ^ nat k" using k1 by (simp add: pow2_def)
    also have "\<dots> \<le> 1 / y" using yk ypos by (simp add: frac_le)
    finally show ?thesis using a_eq by simp
  qed
  have U: "a < pow2 (- k + 1)"
  proof -
    have "1 / y < 1 / 2 ^ nat (k - 1)" using ky by (simp add: frac_less2)
    also have "\<dots> = pow2 (- k + 1)"
    proof (cases "k = 1")
      case True then show ?thesis by (simp add: pow2_def)
    next
      case False
      with k1 have "- k + 1 < 0" by simp
      moreover have "nat (- (- k + 1)) = nat (k - 1)" by simp
      ultimately show ?thesis by (simp add: pow2_def)
    qed
    finally show ?thesis using a_eq by simp
  qed
  show ?thesis using L U e by simp
qed

lemma binary_exponent_unique:
  assumes "pow2 k \<le> a" and "a < pow2 (k + 1)"
  shows "binary_exponent a = k"
proof -
  have pos: "0 < a" using assms(1) pow2_pos [of k] by linarith
  note b = binary_exponent_bounds [OF pos]
  have "pow2 k < pow2 (binary_exponent a + 1)" using assms(1) b by linarith
  then have 1: "k < binary_exponent a + 1" by (simp only: pow2_less_iff)
  have "pow2 (binary_exponent a) < pow2 (k + 1)" using assms(2) b by linarith
  then have 2: "binary_exponent a < k + 1" by (simp only: pow2_less_iff)
  from 1 2 show ?thesis by simp
qed

lemma binary_exponent_less:
  assumes "0 < a" and "a < pow2 k"
  shows "binary_exponent a < k"
proof -
  from binary_exponent_bounds [OF assms(1)] assms(2)
  have "pow2 (binary_exponent a) < pow2 k" by linarith
  then show ?thesis by (simp only: pow2_less_iff)
qed




definition double_quantum :: "real \<Rightarrow> int" where
  "double_quantum x = max (binary_exponent \<bar>x\<bar> - 52) (- 1074)"

lemma to_double_quantum:
  "x \<noteq> 0 \<Longrightarrow>
   to_double x = of_int (round_half_even (x / pow2 (double_quantum x))) * pow2 (double_quantum x)"
  by (simp add: to_double_def double_quantum_def Let_def)

lemma pow2_nonneg [simp]: "0 \<le> pow2 k"
  using pow2_pos [of k] by linarith

lemma pow2_53: "pow2 53 = of_int (2 ^ 53)"
  by (simp add: pow2_def)

lemma pow2_1: "pow2 1 = 2"
  by (simp add: pow2_def)

lemma pow2_0: "pow2 0 = 1"
  by (simp add: pow2_def)

lemma to_double_zero [simp]: "to_double 0 = 0"
  by (simp add: to_double_def)

lemma to_double_nonneg: "0 \<le> x \<Longrightarrow> 0 \<le> to_double x"
proof (cases "x = 0")
  case True then show ?thesis by simp
next
  case False
  assume "0 \<le> x"
  then have "of_int 0 \<le> x / pow2 (double_quantum x)" by simp
  then have "0 \<le> round_half_even (x / pow2 (double_quantum x))"
    by (rule round_half_even_lower)
  then show ?thesis using False by (simp add: to_double_quantum)
qed

lemma to_double_nonpos: "x \<le> 0 \<Longrightarrow> to_double x \<le> 0"
proof (cases "x = 0")
  case True then show ?thesis by simp
next
  case False
  assume "x \<le> 0"
  then have "x / pow2 (double_quantum x) \<le> of_int 0" by (simp add: divide_nonpos_pos)
  then have "round_half_even (x / pow2 (double_quantum x)) \<le> 0"
    by (rule round_half_even_upper)
  then show ?thesis using False by (simp add: to_double_quantum mult_nonpos_nonneg)
qed

lemma multiple_of_quantum:
  assumes "q \<le> p"
  shows "of_int M * pow2 p = of_int (M * 2 ^ nat (p - q)) * pow2 q"
proof -
  have "pow2 p = pow2 ((p - q) + q)" by simp
  also have "\<dots> = pow2 (p - q) * pow2 q" by (rule pow2_add)
  also have "pow2 (p - q) = of_int (2 ^ nat (p - q))" using assms by (simp add: pow2_nonneg_int)
  finally show ?thesis by simp
qed

lemma to_double_le_multiple:
  assumes "x \<noteq> 0" and "x \<le> of_int N * pow2 (double_quantum x)"
  shows "to_double x \<le> of_int N * pow2 (double_quantum x)"
proof -
  have "x / pow2 (double_quantum x) \<le> of_int N"
    using assms(2) by (simp add: pos_divide_le_eq)
  then have "round_half_even (x / pow2 (double_quantum x)) \<le> N"
    by (rule round_half_even_upper)
  then have "of_int (round_half_even (x / pow2 (double_quantum x))) * pow2 (double_quantum x)
      \<le> of_int N * pow2 (double_quantum x)"
    by (simp add: mult_right_mono)
  then show ?thesis unfolding to_double_quantum [OF assms(1)] .
qed

lemma to_double_ge_multiple:
  assumes "x \<noteq> 0" and "of_int N * pow2 (double_quantum x) \<le> x"
  shows "of_int N * pow2 (double_quantum x) \<le> to_double x"
proof -
  have "of_int N \<le> x / pow2 (double_quantum x)"
    using assms(2) by (simp add: pos_le_divide_eq)
  then have "N \<le> round_half_even (x / pow2 (double_quantum x))"
    by (rule round_half_even_lower)
  then have "of_int N * pow2 (double_quantum x) \<le>
      of_int (round_half_even (x / pow2 (double_quantum x))) * pow2 (double_quantum x)"
    by (simp add: mult_right_mono)
  then show ?thesis unfolding to_double_quantum [OF assms(1)] .
qed

lemma double_quantum_le:
  assumes "x \<noteq> 0" and "\<bar>x\<bar> < pow2 (53 + p)" and "- 1074 \<le> p"
  shows "double_quantum x \<le> p"
proof -
  have "binary_exponent \<bar>x\<bar> < 53 + p"
    using assms(1,2) by (intro binary_exponent_less) simp_all
  then show ?thesis using assms(3) by (simp add: double_quantum_def)
qed

lemma to_double_le_representable:
  assumes "x \<le> of_int M * pow2 p" and "\<bar>x\<bar> < pow2 (53 + p)" and "- 1074 \<le> p"
  shows "to_double x \<le> of_int M * pow2 p"
proof (cases "x = 0")
  case True then show ?thesis using assms(1) by simp
next
  case False
  have q: "double_quantum x \<le> p" using False assms(2,3) by (rule double_quantum_le)
  show ?thesis
    using to_double_le_multiple [OF False, of "M * 2 ^ nat (p - double_quantum x)"] assms(1)
    unfolding multiple_of_quantum [OF q, symmetric] by blast
qed

lemma to_double_ge_representable:
  assumes "of_int M * pow2 p \<le> x" and "\<bar>x\<bar> < pow2 (53 + p)" and "- 1074 \<le> p"
  shows "of_int M * pow2 p \<le> to_double x"
proof (cases "x = 0")
  case True then show ?thesis using assms(1) by simp
next
  case False
  have q: "double_quantum x \<le> p" using False assms(2,3) by (rule double_quantum_le)
  show ?thesis
    using to_double_ge_multiple [OF False, of "M * 2 ^ nat (p - double_quantum x)"] assms(1)
    unfolding multiple_of_quantum [OF q, symmetric] by blast
qed

lemma to_double_representable:
  assumes "\<bar>M\<bar> < 2 ^ 53" and "- 1074 \<le> p"
  shows "to_double (of_int M * pow2 p) = of_int M * pow2 p"
proof -
  have "\<bar>of_int M * pow2 p\<bar> = of_int \<bar>M\<bar> * pow2 p" by (simp add: abs_mult)
  also have "\<dots> < of_int (2 ^ 53) * pow2 p"
    using assms(1) by (intro mult_strict_right_mono) (simp_all only: of_int_less_iff pow2_pos)
  also have "\<dots> = pow2 (53 + p)" by (simp only: pow2_add pow2_53)
  finally have b: "\<bar>of_int M * pow2 p\<bar> < pow2 (53 + p)" .
  have "to_double (of_int M * pow2 p) \<le> of_int M * pow2 p"
    by (rule to_double_le_representable [OF order_refl b assms(2)])
  moreover have "of_int M * pow2 p \<le> to_double (of_int M * pow2 p)"
    by (rule to_double_ge_representable [OF order_refl b assms(2)])
  ultimately show ?thesis by (rule antisym)
qed

lemma to_double_of_int: "\<bar>n\<bar> < 2 ^ 53 \<Longrightarrow> to_double (of_int n) = of_int n"
  using to_double_representable [of n 0] by (simp add: pow2_0)

lemma to_double_idem: "to_double (to_double x) = to_double x"
proof (cases "x = 0")
  case True then show ?thesis by simp
next
  case False
  define q where "q = double_quantum x"
  define R where "R = round_half_even (x / pow2 q)"
  have td: "to_double x = of_int R * pow2 q"
    using False by (simp add: to_double_quantum q_def R_def)
  have q_lo: "- 1074 \<le> q" by (simp add: q_def double_quantum_def)
  have q_e: "binary_exponent \<bar>x\<bar> - 52 \<le> q" by (simp add: q_def double_quantum_def)
  have "\<bar>x\<bar> < pow2 (binary_exponent \<bar>x\<bar> + 1)"
    using binary_exponent_bounds [of "\<bar>x\<bar>"] False by simp
  also have "\<dots> \<le> pow2 (53 + q)" using q_e by (simp only: pow2_le_iff)
  also have "\<dots> = of_int (2 ^ 53) * pow2 q" by (simp only: pow2_add pow2_53)
  finally have ax: "\<bar>x\<bar> < of_int (2 ^ 53) * pow2 q" .
  then have u: "x < of_int (2 ^ 53) * pow2 q" and l: "- (of_int (2 ^ 53) * pow2 q) < x"
    by linarith+
  have "x / pow2 q \<le> of_int (2 ^ 53)"
    using u by (simp add: pos_divide_le_eq)
  then have Ru: "R \<le> 2 ^ 53"
    unfolding R_def by (rule round_half_even_upper)
  have "of_int (- (2 ^ 53)) \<le> x / pow2 q"
    using l by (simp add: pos_le_divide_eq)
  then have Rl: "- (2 ^ 53) \<le> R"
    unfolding R_def by (rule round_half_even_lower)
  from Ru Rl consider "\<bar>R\<bar> < 2 ^ 53" | "R = 2 ^ 53" | "R = - (2 ^ 53)" by linarith
  then show ?thesis
  proof cases
    case 1
    then show ?thesis unfolding td using q_lo by (rule to_double_representable)
  next
    case 2
    have "of_int R * pow2 q = of_int (2 ^ 52) * pow2 (q + 1)"
      unfolding 2 by (simp add: pow2_add pow2_1)
    moreover have "to_double (of_int (2 ^ 52) * pow2 (q + 1)) = of_int (2 ^ 52) * pow2 (q + 1)"
      using q_lo by (intro to_double_representable) simp_all
    ultimately show ?thesis unfolding td by simp
  next
    case 3
    have "of_int R * pow2 q = of_int (- (2 ^ 52)) * pow2 (q + 1)"
      unfolding 3 by (simp add: pow2_add pow2_1)
    moreover have "to_double (of_int (- (2 ^ 52)) * pow2 (q + 1)) =
        of_int (- (2 ^ 52)) * pow2 (q + 1)"
      using q_lo by (intro to_double_representable) simp_all
    ultimately show ?thesis unfolding td by simp
  qed
qed

lemma to_double_le_int:
  assumes "x \<le> of_int n" and "\<bar>x\<bar> < 2 ^ 53"
  shows "to_double x \<le> of_int n"
  using to_double_le_representable [of x n 0] assms by (simp add: pow2_0 pow2_53)

lemma to_double_ge_int:
  assumes "of_int n \<le> x" and "\<bar>x\<bar> < 2 ^ 53"
  shows "of_int n \<le> to_double x"
  using to_double_ge_representable [of n 0 x] assms by (simp add: pow2_0 pow2_53)

lemma to_double_le_bound:
  assumes "x \<le> of_int n" and "0 \<le> n" and "n < 2 ^ 53"
  shows "to_double x \<le> of_int n"
proof (cases "x \<le> 0")
  case True
  then have "to_double x \<le> 0" by (rule to_double_nonpos)
  then show ?thesis using assms(2) by simp
next
  case False
  then have "\<bar>x\<bar> \<le> of_int n" using assms(1) by simp
  also have "(of_int n :: real) < of_int (2 ^ 53)" using assms(3) by (simp only: of_int_less_iff)
  finally have "\<bar>x\<bar> < 2 ^ 53" by simp
  with assms(1) show ?thesis by (rule to_double_le_int)
qed

lemma float_add_range:
  assumes "0 \<le> a" and "a \<le> of_int m" and "0 \<le> b" and "b \<le> of_int n"
      and "0 \<le> m + n" and "m + n < 2 ^ 53"
  shows "0 \<le> float_add a b \<and> float_add a b \<le> of_int (m + n)"
proof -
  have "0 \<le> a + b" and "a + b \<le> of_int (m + n)" using assms(1-4) by simp_all
  then show ?thesis
    unfolding float_add_def using assms(5,6)
    by (intro conjI to_double_nonneg to_double_le_bound)
qed

lemma float_round_le_100: "x \<le> 100 \<Longrightarrow> float_round x 1 \<le> 100"
proof -
  assume "x \<le> 100"
  then have "py_round x (Suc 0) \<le> 100" by (rule py_round_mono_upper_100)
  then have "py_round x 1 \<le> of_int 100" by simp
  then have "to_double (py_round x 1) \<le> of_int 100" by (rule to_double_le_bound) simp_all
  then show ?thesis by (simp add: float_round_def)
qed

lemma float_round_nonneg: "0 \<le> x \<Longrightarrow> 0 \<le> float_round x 1"
proof -
  assume "0 \<le> x"
  then have "of_int 0 \<le> x * 10 ^ 1" by simp
  from py_round_lower [OF this] have "0 \<le> py_round x 1" by simp
  then show ?thesis unfolding float_round_def by (rule to_double_nonneg)
qed


lemma skill_overlap_bounds: "0 \<le> skill_overlap_score job \<and> skill_overlap_score job \<le> 40"
proof (cases "required_skills job = []")
  case True
  then show ?thesis by (simp add: skill_overlap_score_def)
next
  case False
  define matched where
    "matched = length (filter (\<lambda>skill. lower skill \<in> set (map lower ALL_SKILLS)) (required_skills job))"
  define overlap where "overlap = real matched / real (length (required_skills job))"
  have m: "matched \<le> length (required_skills job)"
    unfolding matched_def by (rule length_filter_le)
  have pos: "0 < real (length (required_skills job))" using False by simp
  have o0: "0 \<le> overlap" unfolding overlap_def by simp
  have o1: "overlap \<le> 1" unfolding overlap_def using m pos by (simp add: divide_le_eq)
  have eq: "skill_overlap_score job = py_round (overlap * 40) 2"
    using False by (simp add: skill_overlap_score_def Let_def overlap_def matched_def)
  have "of_int 0 \<le> overlap * 40 * 10 ^ 2" using o0 by simp
  from py_round_lower [OF this] have lo: "0 \<le> py_round (overlap * 40) 2" by simp
  have "overlap * 40 * 10 ^ 2 \<le> of_int 4000" using o1 by simp
  from py_round_upper [OF this] have hi: "py_round (overlap * 40) 2 \<le> 40" by simp
  show ?thesis using eq lo hi by simp
qed

lemma experience_match_bounds:
  "0 \<le> experience_match_score job \<and> experience_match_score job \<le> 25"
  by (simp add: experience_match_score_def Let_def)

lemma tech_stack_bounds: "0 \<le> tech_stack_score job \<and> tech_stack_score job \<le> 25"
  by (simp add: tech_stack_score_def Let_def)

lemma company_preference_bounds:
  "0 \<le> company_preference_score job \<and> company_preference_score job \<le> 10"
  by (simp add: company_preference_score_def Let_def)


lemma is_disqualified_relevance_update [simp]:
  "is_disqualified (job\<lparr>relevance_score := s\<rparr>) = is_disqualified job"
  by (simp add: is_disqualified_def)

lemma is_disqualified_score_job [simp]:
  "is_disqualified (score_job m job) = is_disqualified job"
  by (simp add: score_job_def Let_def)

lemma score_loop_eq:
  "score_loop m jobs = map (score_job m) (filter (\<lambda>j. \<not> is_disqualified j) jobs)"
  by (induction jobs) simp_all

lemma scored_jobs_node:
  "scored_jobs (relevance_scoring_node ge state) =
   Some (sort_by_score_desc
     (score_loop (case ge of Inl e \<Rightarrow> None | Inr m \<Rightarrow> Some m)
        (case filtered_jobs state of None \<Rightarrow> [] | Some js \<Rightarrow> js)))"
  by (simp add: relevance_scoring_node_def Let_def)

lemma selected_jobs_node:
  "selected_jobs (relevance_scoring_node ge state) =
   Some (selection_gate MIN_RELEVANCE_SCORE
     (score_loop (case ge of Inl e \<Rightarrow> None | Inr m \<Rightarrow> Some m)
        (case filtered_jobs state of None \<Rightarrow> [] | Some js \<Rightarrow> js)))"
  by (simp add: relevance_scoring_node_def Let_def selection_gate_def)

lemma score_loop_not_disqualified:
  "j \<in> set (score_loop m jobs) \<Longrightarrow> \<not> is_disqualified j"
  by (auto simp: score_loop_eq)

lemma set_sort_by_score_desc [simp]: "set (sort_by_score_desc js) = set js"
  by (simp add: sort_by_score_desc_def)

lemma set_selection_gate: "set (selection_gate t js) \<subseteq> set js"
  by (auto simp: selection_gate_def)

lemma field_hit_imp_combined_hit:
  assumes "ci_substring kw (title job) \<or> ci_substring kw (description job) \<or>
           ci_substring kw (experience_required job)"
  shows "ci_substring kw (title job @ '' '' @ description job @ '' '' @ experience_required job)"
  using assms unfolding ci_substring_def lower_append
  by (auto simp: sublist_append)


lemma senior_hit: "ci_substring ''senior'' (title senior_job)"
  by code_simp

lemma scenario_skill: "skill_overlap_score scenario_job = 40"
  by code_simp
lemma scenario_experience: "experience_match_score scenario_job = 25"
  by code_simp
lemma scenario_tech: "tech_stack_score scenario_job = 9"
  by code_simp
lemma scenario_company: "company_preference_score scenario_job = 2"
  by code_simp
lemma scenario_not_disqualified: "\<not> is_disqualified scenario_job"
  by code_simp

lemma scenario_float_sum:
  "float_add (float_add (float_add (to_double 40) (to_double 25)) (to_double 9)) (to_double 2) = 76"
  by code_simp

lemma float_round_76: "float_round 76 (Suc 0) = 76"
  by code_simp

lemma float_base_score_range: "0 \<le> float_base_score job \<and> float_base_score job \<le> 100"
proof -
  have s1: "0 \<le> to_double (skill_overlap_score job) \<and>
            to_double (skill_overlap_score job) \<le> of_int 40"
    using skill_overlap_bounds [of job] by (intro conjI to_double_nonneg to_double_le_bound) simp_all
  have s2: "0 \<le> to_double (experience_match_score job) \<and>
            to_double (experience_match_score job) \<le> of_int 25"
    using experience_match_bounds [of job]
    by (intro conjI to_double_nonneg to_double_le_bound) simp_all
  have s3: "0 \<le> to_double (tech_stack_score job) \<and>
            to_double (tech_stack_score job) \<le> of_int 25"
    using tech_stack_bounds [of job] by (intro conjI to_double_nonneg to_double_le_bound) simp_all
  have s4: "0 \<le> to_double (company_preference_score job) \<and>
            to_double (company_preference_score job) \<le> of_int 10"
    using company_preference_bounds [of job]
    by (intro conjI to_double_nonneg to_double_le_bound) simp_all
  have a: "0 \<le> float_add (to_double (skill_overlap_score job))
                           (to_double (experience_match_score job)) \<and>
           float_add (to_double (skill_overlap_score job))
                     (to_double (experience_match_score job)) \<le> of_int (40 + 25)"
    using s1 s2 by (intro float_add_range) simp_all
  have b: "0 \<le> float_add (float_add (to_double (skill_overlap_score job))
                           (to_double (experience_match_score job)))
                           (to_double (tech_stack_score job)) \<and>
           float_add (float_add (to_double (skill_overlap_score job))
                           (to_double (experience_match_score job)))
                           (to_double (tech_stack_score job)) \<le> of_int ((40 + 25) + 25)"
    using a s3 by (intro float_add_range) simp_all
  have "0 \<le> float_base_score job \<and> float_base_score job \<le> of_int (((40 + 25) + 25) + 10)"
    unfolding float_base_score_def using b s4 by (intro float_add_range) simp_all
  then show ?thesis by simp
qed

lemma float_base_score_double: "to_double (float_base_score job) = float_base_score job"
  unfolding float_base_score_def float_add_def by (rule to_double_idem)

lemma score_job_base:
  "score_job m job =
     job\<lparr>relevance_score :=
       float_round
         (min (float_add (float_base_score job)
                 (float_mul (case m of None \<Rightarrow> 0 | Some e \<Rightarrow> to_double (semantic_similarity job e))
                            (to_double (1 / 10))))
              100) 1\<rparr>"
  by (simp add: score_job_def Let_def float_base_score_def)

lemma score_job_absent:
  "score_job None job = job\<lparr>relevance_score := float_round (float_base_score job) 1\<rparr>"
proof -
  have "float_add (float_base_score job) (float_mul 0 (to_double (1 / 10))) = float_base_score job"
    by (simp add: float_add_def float_mul_def float_base_score_double)
  moreover have "min (float_base_score job) 100 = float_base_score job"
    using float_base_score_range [of job] by (simp add: min_def)
  ultimately show ?thesis
    by (simp add: score_job_base)
qed

lemma semantic_similarity_throws:
  "embed_query m candidate_profile = Inl e \<or> embed_query m (job_text job) = Inl e
   \<Longrightarrow> semantic_similarity job m = 5"
  by (auto simp: semantic_similarity_def split: sum.splits)

lemma tenth_of_default_bonus: "float_mul (to_double 5) (to_double (1 / 10)) = 1 / 2"
  by code_simp

lemma score_job_throws:
  "embed_query m candidate_profile = Inl e \<or> embed_query m (job_text job) = Inl e \<Longrightarrow>
   score_job (Some m) job =
     job\<lparr>relevance_score :=
       float_round (min (float_add (float_base_score job) (1 / 2)) 100) 1\<rparr>"
  by (simp add: score_job_base semantic_similarity_throws tenth_of_default_bonus)

lemma scored_job_in_output:
  assumes "filtered_jobs state = Some jobs" and "job \<in> set jobs" and "\<not> is_disqualified job"
  shows "\<exists>scored. scored_jobs (relevance_scoring_node ge state) = Some scored \<and>
           score_job (case ge of Inl e \<Rightarrow> None | Inr m \<Rightarrow> Some m) job \<in> set scored"
  using assms by (simp add: scored_jobs_node score_loop_eq)

lemma float_round_153_2: "float_round (min (float_add 76 (1 / 2)) 100) (Suc 0) = 153 / 2"
  by code_simp

lemma scenario_base: "float_base_score scenario_job = 76"
  by (simp add: float_base_score_def scenario_skill scenario_experience scenario_tech
      scenario_company scenario_float_sum)

lemma scenario_score_absent: "score_job None scenario_job = scenario_job\<lparr>relevance_score := 76\<rparr>"
  by (simp add: score_job_absent scenario_base float_round_76)

lemma off_profile_skill: "skill_overlap_score off_profile_job = 0"
  by code_simp

lemma off_profile_experience: "experience_match_score off_profile_job = 0"
  by code_simp

lemma off_profile_tech: "tech_stack_score off_profile_job = 0"
  by code_simp

lemma off_profile_company: "company_preference_score off_profile_job = 0"
  by code_simp

lemma off_profile_not_disqualified: "\<not> is_disqualified off_profile_job"
  by code_simp

lemma off_profile_text: "job_text off_profile_job \<noteq> candidate_profile"
  by code_simp

lemma cosine_opposed: "cosine_similarity [1, 0] [- 1, 0] = Inr (- 1)"
  by (simp add: cosine_similarity_def normalize_def row_norm_def)

lemma py_round_minus_10: "py_round (- 10) 2 = - 10"
  by (simp add: py_round_def round_half_even_def)

lemma off_profile_base: "float_base_score off_profile_job = 0"
  by (simp add: float_base_score_def float_add_def off_profile_skill off_profile_experience
      off_profile_tech off_profile_company)

lemma off_profile_final:
  "float_round (min (float_add 0 (float_mul (to_double (- 10)) (to_double (1 / 10)))) 100) (Suc 0)
     = - 1"
  by code_simp

lemma off_profile_semantic: "semantic_similarity off_profile_job opposed_embeddings = - 10"
  by (simp add: semantic_similarity_def opposed_embeddings_def off_profile_text
      cosine_opposed py_round_minus_10)

lemma off_profile_scored:
  "score_job (Some opposed_embeddings) off_profile_job = off_profile_job\<lparr>relevance_score := - 1\<rparr>"
  by (simp add: score_job_base off_profile_base off_profile_semantic off_profile_final)

lemma final_score_le_100: "relevance_score (score_job m job) \<le> 100"
  by (simp add: score_job_base float_round_le_100 del: One_nat_def)

lemma final_score_nonneg:
  assumes "case m of None \<Rightarrow> True | Some e \<Rightarrow> 0 \<le> semantic_similarity job e"
  shows "0 \<le> relevance_score (score_job m job)"
proof -
  define bonus where
    "bonus = (case m of None \<Rightarrow> 0 | Some e \<Rightarrow> to_double (semantic_similarity job e))"
  have b: "0 \<le> bonus" using assms by (cases m) (simp_all add: bonus_def to_double_nonneg)
  have "0 \<le> to_double (1 / 10)" by (rule to_double_nonneg) simp
  with b have "0 \<le> bonus * to_double (1 / 10)" by (rule mult_nonneg_nonneg)
  then have "0 \<le> float_mul bonus (to_double (1 / 10))"
    unfolding float_mul_def by (rule to_double_nonneg)
  moreover have "0 \<le> float_base_score job" using float_base_score_range [of job] by blast
  ultimately have "0 \<le> float_base_score job + float_mul bonus (to_double (1 / 10))"
    by (rule add_nonneg_nonneg [rotated])
  then have "0 \<le> float_add (float_base_score job) (float_mul bonus (to_double (1 / 10)))"
    unfolding float_add_def by (rule to_double_nonneg)
  then have "0 \<le> min (float_add (float_base_score job) (float_mul bonus (to_double (1 / 10)))) 100"
    by simp
  then have "0 \<le> float_round
      (min (float_add (float_base_score job) (float_mul bonus (to_double (1 / 10)))) 100) 1"
    by (rule float_round_nonneg)
  then show ?thesis
    by (simp add: score_job_base bonus_def del: One_nat_def)
qed

lemma lower_space: "lower '' '' = '' ''"
  by code_simp




lemma matched_count_eq:
  "(lower skill \<in> set (map lower ALL_SKILLS)) = list_ex (\<lambda>s. lower s = lower skill) ALL_SKILLS"
proof
  assume "lower skill \<in> set (map lower ALL_SKILLS)"
  then obtain s where "s \<in> set ALL_SKILLS" and "lower skill = lower s" by auto
  then show "list_ex (\<lambda>s. lower s = lower skill) ALL_SKILLS"
    unfolding list_ex_iff by (intro bexI [of _ s]) simp_all
next
  assume "list_ex (\<lambda>s. lower s = lower skill) ALL_SKILLS"
  then obtain s where s: "s \<in> set ALL_SKILLS" and e: "lower s = lower skill"
    unfolding list_ex_iff by blast
  from s have "lower s \<in> set (map lower ALL_SKILLS)" by simp
  with e show "lower skill \<in> set (map lower ALL_SKILLS)" by simp
qed

lemma three_skill_fraction: "matched_fraction three_skill_job = 1 / 3"
  by code_simp

lemma three_skill_score: "skill_overlap_score three_skill_job = 1333 / 100"
  by code_simp

lemma three_skill_required: "required_skills three_skill_job \<noteq> []"
  by (simp add: three_skill_job_def)










lemma example_stream:
  "scraped_postings example_scrapers (Some [''Machine Learning Intern'']) () =
     [example_posting ''aaaaaaaaaa'' ''ML Intern'' ''internshala'',
      example_posting ''bbbbbbbbbb'' ''GenAI Intern'' ''internshala'',
      example_posting ''bbbbbbbbbb'' ''GenAI Intern'' ''indeed'',
      example_posting ''cccccccccc'' ''NLP Intern'' ''indeed'']"
  by code_simp

lemma same_except_eligibilityD:
  "same_except_eligibility a b \<Longrightarrow>
   title b = title a \<and> company b = company a \<and> description b = description a \<and>
   required_skills b = required_skills a \<and> preferred_skills b = preferred_skills a \<and>
   experience_required b = experience_required a \<and> relevance_score b = relevance_score a"
proof -
  assume "same_except_eligibility a b"
  then have e: "b = a\<lparr>work_mode := work_mode b, joining_date_flexible := joining_date_flexible b\<rparr>"
    by (simp only: same_except_eligibility_def)
  show ?thesis by (subst e, simp)+
qed

lemma same_except_components:
  assumes "same_except_eligibility a b"
  shows "is_disqualified b = is_disqualified a"
    and "skill_overlap_score b = skill_overlap_score a"
    and "experience_match_score b = experience_match_score a"
    and "tech_stack_score b = tech_stack_score a"
    and "company_preference_score b = company_preference_score a"
    and "job_text b = job_text a"
  using same_except_eligibilityD [OF assms]
  by (simp_all add: is_disqualified_def skill_overlap_score_def experience_match_score_def
      tech_stack_score_def company_preference_score_def job_text_def)

lemma same_except_semantic:
  assumes "same_except_eligibility a b"
  shows "semantic_similarity b m = semantic_similarity a m"
  unfolding semantic_similarity_def same_except_components(6) [OF assms] by (rule refl)

lemma same_except_score_job:
  assumes "same_except_eligibility a b"
  shows "same_except_eligibility (score_job m a) (score_job m b)"
proof -
  have s: "relevance_score (score_job m b) = relevance_score (score_job m a)"
    using same_except_components [OF assms] same_except_semantic [OF assms]
    by (cases m) (simp_all add: score_job_def Let_def)
  have u: "score_job m b = b\<lparr>relevance_score := relevance_score (score_job m b)\<rparr>"
          "score_job m a = a\<lparr>relevance_score := relevance_score (score_job m a)\<rparr>"
    by (simp_all add: score_job_def Let_def)
  from assms have e: "b = a\<lparr>work_mode := work_mode b, joining_date_flexible := joining_date_flexible b\<rparr>"
    by (simp only: same_except_eligibility_def)
  show ?thesis
    unfolding same_except_eligibility_def
    by (subst (1 2 3) u(1), subst u(2), subst s, subst (1 2 3) e) simp
qed

lemma same_except_relevance:
  "same_except_eligibility a b \<Longrightarrow> relevance_score b = relevance_score a"
  using same_except_eligibilityD by blast

lemma same_except_score_loop:
  "list_all2 same_except_eligibility xs ys \<Longrightarrow>
   list_all2 same_except_eligibility (score_loop m xs) (score_loop m ys)"
proof (induction rule: list_all2_induct)
  case Nil
  show ?case by simp
next
  case (Cons x xs y ys)
  then show ?case
    using same_except_components(1) [of x y] same_except_score_job [of x y m] by simp
qed

lemma list_all2_insort_key:
  assumes "\<And>a b. R a b \<Longrightarrow> f a = g b" and "R x y" and "list_all2 R xs ys"
  shows "list_all2 R (insort_key f x xs) (insort_key g y ys)"
  using assms(3)
proof (induction rule: list_all2_induct)
  case Nil
  show ?case using assms(2) by simp
next
  case (Cons a as b bs)
  have "f x = g y" "f a = g b" using assms(1,2) Cons.hyps(1) by blast+
  then show ?case using Cons assms(2) by simp
qed

lemma list_all2_sort_key:
  assumes "\<And>a b. R a b \<Longrightarrow> f a = g b" and "list_all2 R xs ys"
  shows "list_all2 R (sort_key f xs) (sort_key g ys)"
  using assms(2)
proof (induction rule: list_all2_induct)
  case Nil
  show ?case by simp
next
  case (Cons a as b bs)
  then show ?case
    using list_all2_insort_key [of R f g a b "sort_key f as" "sort_key g bs"] assms(1)
    by (simp add: sort_key_simps)
qed

lemma list_all2_filter_same:
  assumes "\<And>a b. R a b \<Longrightarrow> P a = Q b" and "list_all2 R xs ys"
  shows "list_all2 R (filter P xs) (filter Q ys)"
  using assms(2)
proof (induction rule: list_all2_induct)
  case Nil
  show ?case by simp
next
  case (Cons a as b bs)
  then show ?case using assms(1) [of a b] by simp
qed

lemma same_except_sorted:
  assumes "list_all2 same_except_eligibility xs ys"
  shows "list_all2 same_except_eligibility (sort_by_score_desc xs) (sort_by_score_desc ys)"
  unfolding sort_by_score_desc_def
  by (rule list_all2_sort_key [OF _ assms]) (simp add: same_except_relevance)

lemma same_except_selected:
  assumes "list_all2 same_except_eligibility xs ys"
  shows "list_all2 same_except_eligibility (selection_gate t xs) (selection_gate t ys)"
  unfolding selection_gate_def
  by (rule list_all2_filter_same [OF _ same_except_sorted [OF assms]])
     (simp add: same_except_relevance)

lemma remote_same_except: "same_except_eligibility scenario_job remote_scenario_job"
  by (simp add: same_except_eligibility_def remote_scenario_job_def)

lemma sublist_append_no_straddle:
  assumes "list_all (\<lambda>k. \<not> prefix (drop k t) s) [1..<length t]"
  shows "sublist t (d @ s) = (sublist t d \<or> sublist t s)"
proof -
  have "\<not> (suffix t1 d \<and> prefix t2 s)" if "t = t1 @ t2" "t1 \<noteq> []" "t2 \<noteq> []" for t1 t2
  proof -
    from that(2,3) have "0 < length t1" "0 < length t2" by blast+
    then have "1 \<le> length t1 \<and> length t1 < length t1 + length t2" by linarith
    then have k: "length t1 \<in> set [1..<length t]" unfolding that(1) by simp
    have "drop (length t1) t = t2" using that by simp
    with assms k show ?thesis unfolding list_all_iff by blast
  qed
  moreover have "sublist t d" if "t = t1 @ t2" "t2 = []" "suffix t1 d" for t1 t2
    using that by auto
  moreover have "sublist t s" if "t = t1 @ t2" "t1 = []" "prefix t2 s" for t1 t2
    using that by auto
  ultimately show ?thesis
    unfolding sublist_append by blast
qed

lemma length_filter_disj:
  "\<forall>x \<in> set xs. \<not> (P x \<and> Q x) \<Longrightarrow>
   length (filter (\<lambda>x. P x \<or> Q x) xs) = length (filter P xs) + length (filter Q xs)"
  by (induction xs) auto

lemma priority_tech_no_straddle:
  "list_all (\<lambda>t. list_all (\<lambda>k. \<not> prefix (drop k t) ''python pytorch'') [1..<length t])
     priority_tech"
  by code_simp

lemma priority_tech_in_skills:
  "filter (\<lambda>t. sublist t ''python pytorch'') priority_tech = [''pytorch'']"
  by code_simp

lemma priority_tech_lowercase: "list_all (\<lambda>t. lower t = t) priority_tech"
  by code_simp

lemma scenario_skills_lower:
  "join '' '' (map lower ([''Python'', ''PyTorch''] @ [])) = ''python pytorch''"
  by code_simp

lemma scenario_skills_matched:
  "filter (\<lambda>skill. lower skill \<in> set (map lower ALL_SKILLS)) [''Python'', ''PyTorch''] =
     [''Python'', ''PyTorch'']"
  by code_simp

lemma py_round_40: "py_round 40 2 = 40"
  by (simp add: py_round_def round_half_even_def)

lemma scenario_experience_text:
  "sublist ''intern'' (lower ''Machine Learning Intern, fresher welcome'')"
  by code_simp

lemma scenario_skill_general:
  assumes "required_skills job = [''Python'', ''PyTorch'']"
  shows "skill_overlap_score job = 40"
  unfolding skill_overlap_score_def Let_def assms scenario_skills_matched
  by (simp add: py_round_40)

lemma scenario_experience_general:
  assumes "experience_required job = ''Machine Learning Intern, fresher welcome''"
  shows "experience_match_score job = 25"
proof -
  have "sublist ''intern'' (lower (experience_required job) @ '' '' @ lower (description job))"
    unfolding assms using scenario_experience_text by (auto simp only: sublist_append)
  then show ?thesis
    unfolding experience_match_score_def Let_def by simp
qed

lemma scenario_tech_general:
  assumes "required_skills job = [''Python'', ''PyTorch'']" and "preferred_skills job = []"
      and "tech_hits (description job) = [''langchain'', ''rag'']"
  shows "tech_stack_score job = 9"
proof -
  define d where "d = lower (description job)"
  have score: "tech_stack_score job =
      real (min (length (filter (\<lambda>tech. sublist tech (d @ ''python pytorch'')) priority_tech) * 3) 25)"
    unfolding tech_stack_score_def Let_def assms(1,2) scenario_skills_lower d_def by (rule refl)
  have split: "filter (\<lambda>tech. sublist tech (d @ ''python pytorch'')) priority_tech =
      filter (\<lambda>tech. sublist tech d \<or> sublist tech ''python pytorch'') priority_tech"
  proof (rule filter_cong [OF refl])
    fix tech assume "tech \<in> set priority_tech"
    with priority_tech_no_straddle
    have "list_all (\<lambda>k. \<not> prefix (drop k tech) ''python pytorch'') [1..<length tech]"
      unfolding list_all_iff by blast
    then show "sublist tech (d @ ''python pytorch'') =
        (sublist tech d \<or> sublist tech ''python pytorch'')"
      by (rule sublist_append_no_straddle)
  qed
  have "filter (\<lambda>tech. sublist tech d) priority_tech =
      filter (\<lambda>tech. ci_substring tech (description job)) priority_tech"
  proof (rule filter_cong [OF refl])
    fix tech assume "tech \<in> set priority_tech"
    with priority_tech_lowercase have "lower tech = tech"
      unfolding list_all_iff by blast
    then show "sublist tech d = ci_substring tech (description job)"
      by (simp add: ci_substring_def d_def)
  qed
  with assms(3) have hits: "filter (\<lambda>tech. sublist tech d) priority_tech = [''langchain'', ''rag'']"
    by (simp add: tech_hits_def)
  have disjoint: "\<forall>x \<in> set priority_tech. \<not> (sublist x d \<and> sublist x ''python pytorch'')"
  proof (intro ballI notI)
    fix x assume x: "x \<in> set priority_tech" and b: "sublist x d \<and> sublist x ''python pytorch''"
    from x b have "x \<in> set (filter (\<lambda>tech. sublist tech d) priority_tech)"
      and "x \<in> set (filter (\<lambda>tech. sublist tech ''python pytorch'') priority_tech)"
      by simp_all
    then have "x \<in> set [''langchain'', ''rag'']" and "x \<in> set [''pytorch'']"
      unfolding hits priority_tech_in_skills by blast+
    then show False by auto
  qed
  have "length (filter (\<lambda>tech. sublist tech d \<or> sublist tech ''python pytorch'') priority_tech) =
      length [''langchain'', ''rag''] + length [''pytorch'']"
    unfolding length_filter_disj [OF disjoint] hits priority_tech_in_skills by (rule refl)
  then show ?thesis
    unfolding score split by simp
qed

lemma scenario_company_general:
  assumes "company_hits (company job @ '' '' @ description job) = [''AI'']"
  shows "company_preference_score job = 2"
proof -
  have "filter (\<lambda>kw. sublist (lower kw) (lower (company job) @ '' '' @ lower (description job)))
      PREFERRED_COMPANY_KEYWORDS = [''AI'']"
    using assms
    by (simp only: company_hits_def ci_substring_def lower_append lower_space)
  then show ?thesis
    unfolding company_preference_score_def Let_def by simp
qed

lemma in_selection_gate:
  "j \<in> set js \<Longrightarrow> t \<le> relevance_score j \<Longrightarrow> j \<in> set (selection_gate t js)"
  by (simp add: selection_gate_def)

lemma scenario_tech_hits: "tech_hits (description scenario_job) = [''langchain'', ''rag'']"
  by code_simp

lemma scenario_company_hits:
  "company_hits (company scenario_job @ '' '' @ description scenario_job) = [''AI'']"
  by code_simp

lemma scenario_fields:
  "required_skills scenario_job = [''Python'', ''PyTorch'']"
  "preferred_skills scenario_job = []"
  "experience_required scenario_job = ''Machine Learning Intern, fresher welcome''"
  "company scenario_job = ''Acme AI''"
  by (simp_all add: scenario_job_def)

subsection \<open>Selection gate\<close>

text \<open>
  C1. For every list of scored postings and every threshold, the selection gate returns
  exactly the postings whose relevance score is at least the threshold (as a multiset:
  nothing is lost, added or duplicated), ordered by descending score; postings with equal
  scores keep their relative input order (for every score \<open>k\<close>, the postings scored \<open>k\<close>
  occur in the output in the order they have in the input). With threshold 60 and scores
  85, 40, 72, 60, 59.9 the output is the postings scored 85, 72, 60 in that order.
\<close>

theorem selection_gate_correct:
  "mset (selection_gate t js) = filter_mset (\<lambda>j. t \<le> relevance_score j) (mset js)
   \<and> sorted_wrt (\<lambda>a b. relevance_score a \<ge> relevance_score b) (selection_gate t js)
   \<and> (\<forall>k. filter (\<lambda>j. relevance_score j = k) (selection_gate t js) =
            filter (\<lambda>j. relevance_score j = k) (filter (\<lambda>j. t \<le> relevance_score j) js))
   \<and> selection_gate 60 (map (\<lambda>s. j\<lparr>relevance_score := s\<rparr>) [85, 40, 72, 60, 599 / 10]) =
       map (\<lambda>s. j\<lparr>relevance_score := s\<rparr>) [85, 72, 60]"
proof (intro conjI allI)
  show "mset (selection_gate t js) = filter_mset (\<lambda>j. t \<le> relevance_score j) (mset js)"
    by (simp add: selection_gate_def mset_sort_by_score_desc)
  show "sorted_wrt (\<lambda>a b. relevance_score a \<ge> relevance_score b) (selection_gate t js)"
    unfolding selection_gate_def by (rule sorted_wrt_filter) (rule sorted_desc_sort_by_score)
  show "filter (\<lambda>j. relevance_score j = k) (selection_gate t js) =
        filter (\<lambda>j. relevance_score j = k) (filter (\<lambda>j. t \<le> relevance_score j) js)" for k
  proof -
    have "filter (\<lambda>j. relevance_score j = k) (selection_gate t js) =
          filter (\<lambda>j. t \<le> relevance_score j)
            (filter (\<lambda>j. relevance_score j = k) (sort_by_score_desc js))"
      by (simp add: selection_gate_def conj_commute)
    also have "\<dots> = filter (\<lambda>j. t \<le> relevance_score j) (filter (\<lambda>j. relevance_score j = k) js)"
      by (simp only: sort_by_score_desc_stable)
    also have "\<dots> = filter (\<lambda>j. relevance_score j = k) (filter (\<lambda>j. t \<le> relevance_score j) js)"
      by (simp add: conj_commute)
    finally show ?thesis .
  qed
  show "selection_gate 60 (map (\<lambda>s. j\<lparr>relevance_score := s\<rparr>) [85, 40, 72, 60, 599 / 10]) =
       map (\<lambda>s. j\<lparr>relevance_score := s\<rparr>) [85, 72, 60]"
    by (simp add: selection_gate_def sort_by_score_desc_def)
qed

subsection \<open>Disqualification\<close>

text \<open>
  C2. If a blacklist keyword is a case-insensitive substring of the posting's title,
  description and experience text joined by single spaces (in particular, if it is one of
  any of the three fields), then the posting occurs neither in the scored output nor in
  the selected output of the scoring node, whatever score is attached to it.
\<close>

theorem blacklisted_posting_excluded:
  assumes "kw \<in> set BLACKLIST_KEYWORDS"
      and "ci_substring kw
             (title job @ '' '' @ description job @ '' '' @ experience_required job)
           \<or> ci_substring kw (title job) \<or> ci_substring kw (description job)
           \<or> ci_substring kw (experience_required job)"
  shows "\<exists>scored selected.
           scored_jobs (relevance_scoring_node ge state) = Some scored \<and>
           selected_jobs (relevance_scoring_node ge state) = Some selected \<and>
           (\<forall>s. job\<lparr>relevance_score := s\<rparr> \<notin> set scored \<and>
                job\<lparr>relevance_score := s\<rparr> \<notin> set selected)"
proof -
  have hit: "ci_substring kw
      (title job @ '' '' @ description job @ '' '' @ experience_required job)"
    using assms(2) field_hit_imp_combined_hit [of kw job] by blast
  have dq: "is_disqualified job"
    using assms(1) hit
    by (auto simp: is_disqualified_def Let_def list_ex_iff ci_substring_def)
  define loop where "loop = score_loop (case ge of Inl e \<Rightarrow> None | Inr m \<Rightarrow> Some m)
        (case filtered_jobs state of None \<Rightarrow> [] | Some js \<Rightarrow> js)"
  have a: "job\<lparr>relevance_score := s\<rparr> \<notin> set loop" for s
    using dq score_loop_not_disqualified [of "job\<lparr>relevance_score := s\<rparr>"]
    unfolding loop_def by auto
  have b: "job\<lparr>relevance_score := s\<rparr> \<notin> set (selection_gate MIN_RELEVANCE_SCORE loop)" for s
    using a [of s] set_selection_gate [of MIN_RELEVANCE_SCORE loop] by blast
  show ?thesis
    unfolding scored_jobs_node selected_jobs_node loop_def [symmetric]
    using a b by simp
qed

theorem blacklisted_posting_excluded_witness:
  "''senior'' \<in> set BLACKLIST_KEYWORDS \<and> ci_substring ''senior'' (title senior_job) \<and>
   (\<exists>scored selected.
      scored_jobs (relevance_scoring_node no_embeddings (state_of [scenario_job, senior_job]))
        = Some scored \<and>
      selected_jobs (relevance_scoring_node no_embeddings (state_of [scenario_job, senior_job]))
        = Some selected \<and>
      (\<forall>s. senior_job\<lparr>relevance_score := s\<rparr> \<notin> set scored \<and>
           senior_job\<lparr>relevance_score := s\<rparr> \<notin> set selected))"
proof -
  have k: "''senior'' \<in> set BLACKLIST_KEYWORDS"
    by (simp add: BLACKLIST_KEYWORDS_def)
  have h: "ci_substring ''senior''
             (title senior_job @ '' '' @ description senior_job @ '' '' @
              experience_required senior_job)
           \<or> ci_substring ''senior'' (title senior_job)
           \<or> ci_substring ''senior'' (description senior_job)
           \<or> ci_substring ''senior'' (experience_required senior_job)"
    using senior_hit by simp
  show ?thesis
    using k senior_hit
      blacklisted_posting_excluded [OF k h, of no_embeddings "state_of [scenario_job, senior_job]"]
    by simp
qed


subsection \<open>Bounds of the components\<close>

text \<open>
  C4. For every posting the skill-overlap component lies in [0, 40], the experience
  component in [0, 25], the tech-stack component in [0, 25] and the company component in
  [0, 10]; hence their sum is at most 100.
\<close>

theorem component_caps:
  "0 \<le> skill_overlap_score job \<and> skill_overlap_score job \<le> 40 \<and>
   0 \<le> experience_match_score job \<and> experience_match_score job \<le> 25 \<and>
   0 \<le> tech_stack_score job \<and> tech_stack_score job \<le> 25 \<and>
   0 \<le> company_preference_score job \<and> company_preference_score job \<le> 10 \<and>
   skill_overlap_score job + experience_match_score job + tech_stack_score job +
     company_preference_score job \<le> 100"
  using skill_overlap_bounds [of job] experience_match_bounds [of job]
    tech_stack_bounds [of job] company_preference_bounds [of job]
  by linarith

subsection \<open>Semantic bonus when the collaborator is unavailable\<close>

text \<open>
  C3 as stated fails when the collaborator is absent: the scenario posting, scored without
  a collaborator, receives 76.0, the plain sum of its four components, while the sum plus
  0.5 is 76.5.
\<close>

theorem absent_collaborator_counterexample:
  "\<not> is_disqualified scenario_job \<and>
   scored_jobs (relevance_scoring_node no_embeddings (state_of [scenario_job])) =
     Some [scenario_job\<lparr>relevance_score := 76\<rparr>] \<and>
   skill_overlap_score scenario_job + experience_match_score scenario_job +
     tech_stack_score scenario_job + company_preference_score scenario_job + 1 / 2 = 153 / 2"
  by (simp add: scenario_not_disqualified scored_jobs_node no_embeddings_def state_of_def
      scenario_score_absent sort_by_score_desc_def
      scenario_skill scenario_experience scenario_tech scenario_company)


text \<open>
  C3, amended. For every posting of the input that is not disqualified: when
  \<^verbatim>\<open>get_embeddings()\<close> raises (the collaborator is absent) the semantic bonus is 0.0 and
  the posting is scored with the float sum of the four components rounded to one decimal;
  when the collaborator is present and one of its two calls raises, the semantic bonus is
  5.0, its tenth is exactly 0.5, and the posting is scored with min(100, sum + 0.5)
  rounded to one decimal. Sum, addition and rounding are those of binary64 floats.
\<close>

theorem semantic_bonus_fallback:
  assumes "filtered_jobs state = Some jobs" and "job \<in> set jobs" and "\<not> is_disqualified job"
  shows "(\<exists>scored. scored_jobs (relevance_scoring_node (Inl e) state) = Some scored \<and>
            job\<lparr>relevance_score := float_round (float_base_score job) 1\<rparr> \<in> set scored) \<and>
         (embed_query m candidate_profile = Inl e' \<or> embed_query m (job_text job) = Inl e' \<longrightarrow>
            semantic_similarity job m = 5 \<and>
            float_mul (to_double 5) (to_double (1 / 10)) = 1 / 2 \<and>
            (\<exists>scored. scored_jobs (relevance_scoring_node (Inr m) state) = Some scored \<and>
               job\<lparr>relevance_score :=
                 float_round (min (float_add (float_base_score job) (1 / 2)) 100) 1\<rparr>
                 \<in> set scored))"
proof (intro conjI impI)
  show "\<exists>scored. scored_jobs (relevance_scoring_node (Inl e) state) = Some scored \<and>
            job\<lparr>relevance_score := float_round (float_base_score job) 1\<rparr> \<in> set scored"
    using scored_job_in_output [OF assms, of "Inl e"] by (simp add: score_job_absent)
next
  assume t: "embed_query m candidate_profile = Inl e' \<or> embed_query m (job_text job) = Inl e'"
  then show "semantic_similarity job m = 5" by (rule semantic_similarity_throws)
  show "float_mul (to_double 5) (to_double (1 / 10)) = 1 / 2" by (rule tenth_of_default_bonus)
  show "\<exists>scored. scored_jobs (relevance_scoring_node (Inr m) state) = Some scored \<and>
               job\<lparr>relevance_score :=
                 float_round (min (float_add (float_base_score job) (1 / 2)) 100) 1\<rparr>
                 \<in> set scored"
    using scored_job_in_output [OF assms, of "Inr m"] score_job_throws [OF t] by simp
qed

theorem semantic_bonus_fallback_witness:
  "filtered_jobs (state_of [scenario_job]) = Some [scenario_job] \<and>
   scenario_job \<in> set [scenario_job] \<and> \<not> is_disqualified scenario_job \<and>
   embed_query failing_embeddings candidate_profile = Inl (Exception ''connection refused'') \<and>
   (\<exists>scored. scored_jobs (relevance_scoring_node no_embeddings (state_of [scenario_job]))
        = Some scored \<and> scenario_job\<lparr>relevance_score := 76\<rparr> \<in> set scored) \<and>
   semantic_similarity scenario_job failing_embeddings = 5 \<and>
   (\<exists>scored. scored_jobs (relevance_scoring_node (Inr failing_embeddings) (state_of [scenario_job]))
        = Some scored \<and> scenario_job\<lparr>relevance_score := 153 / 2\<rparr> \<in> set scored)"
proof -
  have a: "filtered_jobs (state_of [scenario_job]) = Some [scenario_job]"
    by (simp add: state_of_def)
  have b: "scenario_job \<in> set [scenario_job]" by simp
  have c: "embed_query failing_embeddings candidate_profile = Inl (Exception ''connection refused'')"
    by (simp add: failing_embeddings_def)
  show ?thesis
    using a c semantic_bonus_fallback [OF a b scenario_not_disqualified,
        of "Exception ''ImportError''" failing_embeddings "Exception ''connection refused''"]
    by (simp add: scenario_not_disqualified scenario_base float_round_76 float_round_153_2
        no_embeddings_def)
qed

subsection \<open>Range of the final score\<close>

text \<open>
  C5. The score written to a posting is min(100, base + 0.1 * bonus) rounded to one
  decimal; it never exceeds 100 (\<open>final_score_le_100\<close>) and is non-negative whenever the
  semantic bonus is (\<open>final_score_nonneg\<close>). It is not always in [0, 100]: the bonus is
  ten times a cosine similarity and is negative when the two embeddings point away from
  each other. For the posting \<open>off_profile_job\<close>, whose four components are 0, and a
  collaborator returning opposite vectors, the bonus is -10.0 and the score written by the
  node is -1.0.
\<close>

theorem negative_final_score:
  "\<not> is_disqualified off_profile_job \<and>
   semantic_similarity off_profile_job opposed_embeddings = - 10 \<and>
   scored_jobs (relevance_scoring_node (Inr opposed_embeddings) (state_of [off_profile_job])) =
     Some [off_profile_job\<lparr>relevance_score := - 1\<rparr>]"
  by (simp add: off_profile_not_disqualified off_profile_semantic scored_jobs_node state_of_def
      off_profile_scored sort_by_score_desc_def)

subsection \<open>Experience tiers\<close>


subsection \<open>Skill overlap\<close>

text \<open>
  C7 as stated fails for a posting with three required skills of which exactly one is a
  candidate skill: the fraction scaled to 40 is 40/3, the component is 13.33.
\<close>

theorem skill_overlap_exact_counterexample:
  "required_skills three_skill_job \<noteq> [] \<and>
   matched_fraction three_skill_job * 40 = 40 / 3 \<and>
   skill_overlap_score three_skill_job = 1333 / 100 \<and>
   skill_overlap_score three_skill_job \<noteq> matched_fraction three_skill_job * 40"
  by (simp add: three_skill_fraction three_skill_score three_skill_required)

text \<open>
  C7, amended. For a posting with no required skills the skill-overlap component is
  exactly 20; otherwise it is the fraction of the required skills that match, up to case,
  a skill of the candidate's flat skill list, scaled to 40 and rounded to two decimals.
\<close>

theorem skill_overlap_rounded:
  "skill_overlap_score job =
     (if required_skills job = [] then 20
      else py_round (matched_fraction job * 40) 2)"
  unfolding skill_overlap_score_def Let_def matched_fraction_def matched_count_eq
  by (rule refl)

subsection \<open>Identifiers and de-duplication in discovery\<close>



subsection \<open>Work mode and start-date flexibility\<close>

text \<open>
  C10. If two inputs of the scoring node consist of pairwise identical postings except for
  work mode and the start-date-flexible flag, then corresponding postings are disqualified
  alike, and both the scored and the selected outputs correspond position by position:
  corresponding postings again differ at most in those two fields, so they carry equal
  relevance scores and the same postings are selected. The function
  \<open>eligibility_score\<close> over these two fields is not used by the node.
\<close>

theorem eligibility_fields_ignored:
  assumes "filtered_jobs state = Some jobs" and "filtered_jobs state' = Some jobs'"
      and "list_all2 same_except_eligibility jobs jobs'"
  shows "list_all2 (\<lambda>a b. is_disqualified a = is_disqualified b) jobs jobs' \<and>
         (\<exists>scored scored' selected selected'.
            scored_jobs (relevance_scoring_node ge state) = Some scored \<and>
            scored_jobs (relevance_scoring_node ge state') = Some scored' \<and>
            selected_jobs (relevance_scoring_node ge state) = Some selected \<and>
            selected_jobs (relevance_scoring_node ge state') = Some selected' \<and>
            list_all2 (\<lambda>a b. same_except_eligibility a b \<and>
                             relevance_score a = relevance_score b) scored scored' \<and>
            list_all2 (\<lambda>a b. same_except_eligibility a b \<and>
                             relevance_score a = relevance_score b) selected selected')"
proof -
  define m where "m = (case ge of Inl e \<Rightarrow> None | Inr m \<Rightarrow> Some m)"
  have strengthen: "list_all2 (\<lambda>a b. same_except_eligibility a b \<and>
      relevance_score a = relevance_score b) xs ys"
    if "list_all2 same_except_eligibility xs ys" for xs ys
    using that by (rule list_all2_mono) (simp add: same_except_relevance)
  have d: "list_all2 (\<lambda>a b. is_disqualified a = is_disqualified b) jobs jobs'"
    using assms(3) by (rule list_all2_mono) (simp add: same_except_components(1))
  have l: "list_all2 same_except_eligibility (score_loop m jobs) (score_loop m jobs')"
    using assms(3) by (rule same_except_score_loop)
  have sc: "list_all2 same_except_eligibility
      (sort_by_score_desc (score_loop m jobs)) (sort_by_score_desc (score_loop m jobs'))"
    using l by (rule same_except_sorted)
  have sel: "list_all2 same_except_eligibility
      (selection_gate MIN_RELEVANCE_SCORE (score_loop m jobs))
      (selection_gate MIN_RELEVANCE_SCORE (score_loop m jobs'))"
    using l by (rule same_except_selected)
  show ?thesis
    using d strengthen [OF sc] strengthen [OF sel]
    by (simp add: scored_jobs_node selected_jobs_node assms(1,2) m_def)
qed

theorem eligibility_fields_ignored_witness:
  "filtered_jobs (state_of [scenario_job]) = Some [scenario_job] \<and>
   filtered_jobs (state_of [remote_scenario_job]) = Some [remote_scenario_job] \<and>
   list_all2 same_except_eligibility [scenario_job] [remote_scenario_job] \<and>
   (is_disqualified scenario_job = is_disqualified remote_scenario_job) \<and>
   (\<exists>scored scored' selected selected'.
      scored_jobs (relevance_scoring_node no_embeddings (state_of [scenario_job]))
        = Some scored \<and>
      scored_jobs (relevance_scoring_node no_embeddings (state_of [remote_scenario_job]))
        = Some scored' \<and>
      selected_jobs (relevance_scoring_node no_embeddings (state_of [scenario_job]))
        = Some selected \<and>
      selected_jobs (relevance_scoring_node no_embeddings (state_of [remote_scenario_job]))
        = Some selected' \<and>
      list_all2 (\<lambda>a b. same_except_eligibility a b \<and>
                       relevance_score a = relevance_score b) scored scored' \<and>
      list_all2 (\<lambda>a b. same_except_eligibility a b \<and>
                       relevance_score a = relevance_score b) selected selected')"
proof -
  have a: "filtered_jobs (state_of [scenario_job]) = Some [scenario_job]"
    and b: "filtered_jobs (state_of [remote_scenario_job]) = Some [remote_scenario_job]"
    by (simp_all add: state_of_def)
  have c: "list_all2 same_except_eligibility [scenario_job] [remote_scenario_job]"
    by (simp add: remote_same_except)
  from eligibility_fields_ignored [OF a b c, of no_embeddings] a b c
  show ?thesis by simp
qed

subsection \<open>End-to-end scenario\<close>

text \<open>
  C8 as stated fails: for the scenario posting (required skills Python and PyTorch,
  experience text "Machine Learning Intern, fresher welcome", a description whose
  priority-term hits are exactly LangChain and RAG, company "Acme AI" with the single
  preferred keyword AI) the tech-stack component is not 6 and the score without a
  collaborator is not 73. The tech-stack scan reads the skill lists as well as the
  description, and the required skill PyTorch is itself a priority term.
\<close>

theorem scenario_as_stated_counterexample:
  "\<not> is_disqualified scenario_job \<and>
   required_skills scenario_job = [''Python'', ''PyTorch''] \<and>
   experience_required scenario_job = ''Machine Learning Intern, fresher welcome'' \<and>
   tech_hits (description scenario_job) = [''langchain'', ''rag''] \<and>
   company scenario_job = ''Acme AI'' \<and>
   company_hits (company scenario_job @ '' '' @ description scenario_job) = [''AI''] \<and>
   tech_stack_score scenario_job \<noteq> 6 \<and>
   relevance_score (score_job None scenario_job) \<noteq> 73"
proof -
  have t: "tech_stack_score scenario_job \<noteq> 6"
    by (simp add: scenario_tech)
  have f: "relevance_score (score_job None scenario_job) \<noteq> 73"
    by (simp add: scenario_score_absent)
  show ?thesis
    using scenario_not_disqualified scenario_fields scenario_tech_hits scenario_company_hits t f
    by blast
qed

text \<open>
  C8, amended. For every posting of the input that is not disqualified, with required
  skills Python and PyTorch and no preferred skills, experience text "Machine Learning
  Intern, fresher welcome", a description whose priority-term hits are exactly LangChain
  and RAG, and company "Acme AI" such that company and description match exactly the
  preferred keyword AI: the components are skill = 40, experience = 25, tech = 9 and
  company = 2; without an embedding collaborator the posting is scored 76.0, and it is
  selected under the threshold 60.
\<close>

theorem scenario_scores:
  assumes "filtered_jobs state = Some jobs" and "job \<in> set jobs"
      and "\<not> is_disqualified job"
      and "required_skills job = [''Python'', ''PyTorch'']" and "preferred_skills job = []"
      and "experience_required job = ''Machine Learning Intern, fresher welcome''"
      and "tech_hits (description job) = [''langchain'', ''rag'']"
      and "company job = ''Acme AI''"
      and "company_hits (company job @ '' '' @ description job) = [''AI'']"
  shows "skill_overlap_score job = 40 \<and> experience_match_score job = 25 \<and>
         tech_stack_score job = 9 \<and> company_preference_score job = 2 \<and>
         (\<exists>scored selected.
            scored_jobs (relevance_scoring_node (Inl e) state) = Some scored \<and>
            selected_jobs (relevance_scoring_node (Inl e) state) = Some selected \<and>
            job\<lparr>relevance_score := 76\<rparr> \<in> set scored \<and>
            job\<lparr>relevance_score := 76\<rparr> \<in> set selected)"
proof -
  note c = scenario_skill_general [OF assms(4)] scenario_experience_general [OF assms(6)]
    scenario_tech_general [OF assms(4,5,7)] scenario_company_general [OF assms(9)]
  have "float_base_score job = 76" by (simp add: float_base_score_def c scenario_float_sum)
  then have s: "score_job None job = job\<lparr>relevance_score := 76\<rparr>"
    by (simp add: score_job_absent float_round_76)
  have "score_job None job \<in> set (score_loop None jobs)"
    using assms(2,3) by (simp add: score_loop_eq)
  then have l: "job\<lparr>relevance_score := 76\<rparr> \<in> set (score_loop None jobs)"
    unfolding s .
  then have "job\<lparr>relevance_score := 76\<rparr> \<in> set (selection_gate MIN_RELEVANCE_SCORE (score_loop None jobs))"
    by (rule in_selection_gate) (simp add: MIN_RELEVANCE_SCORE_def)
  with l c show ?thesis
    by (simp add: scored_jobs_node selected_jobs_node assms(1))
qed

theorem scenario_scores_witness:
  "filtered_jobs (state_of [scenario_job]) = Some [scenario_job] \<and>
   scenario_job \<in> set [scenario_job] \<and> \<not> is_disqualified scenario_job \<and>
   required_skills scenario_job = [''Python'', ''PyTorch''] \<and>
   preferred_skills scenario_job = [] \<and>
   experience_required scenario_job = ''Machine Learning Intern, fresher welcome'' \<and>
   tech_hits (description scenario_job) = [''langchain'', ''rag''] \<and>
   company scenario_job = ''Acme AI'' \<and>
   company_hits (company scenario_job @ '' '' @ description scenario_job) = [''AI''] \<and>
   skill_overlap_score scenario_job = 40 \<and> experience_match_score scenario_job = 25 \<and>
   tech_stack_score scenario_job = 9 \<and> company_preference_score scenario_job = 2 \<and>
   (\<exists>scored selected.
      scored_jobs (relevance_scoring_node no_embeddings (state_of [scenario_job])) = Some scored \<and>
      selected_jobs (relevance_scoring_node no_embeddings (state_of [scenario_job]))
        = Some selected \<and>
      scenario_job\<lparr>relevance_score := 76\<rparr> \<in> set scored \<and>
      scenario_job\<lparr>relevance_score := 76\<rparr> \<in> set selected)"
proof -
  have a: "filtered_jobs (state_of [scenario_job]) = Some [scenario_job]"
    by (simp add: state_of_def)
  have b: "scenario_job \<in> set [scenario_job]" by simp
  note t = scenario_scores [OF a b scenario_not_disqualified scenario_fields(1,2,3)
      scenario_tech_hits scenario_fields(4) scenario_company_hits, of "Exception ''ImportError''"]
  show ?thesis
    unfolding no_embeddings_def
    using a b scenario_not_disqualified scenario_fields scenario_tech_hits scenario_company_hits t
    by blast
qed

end
